theory Spec2Isabelle
  imports Main
begin

section \<open>Flashing a binary onto a connected device: \<^verbatim>\<open>mbed_tools/build/flash.py\<close>\<close>

text \<open>
  The module has four functions: \<^verbatim>\<open>_flash_dev\<close>, \<^verbatim>\<open>_find_connected_device\<close>,
  \<^verbatim>\<open>_build_binary_file_path\<close> and \<^verbatim>\<open>flash_binary\<close>. They are embedded below under
  the same names (without the leading underscore, which an Isabelle name cannot have).
  Everything the functions do to the outside (the device enumeration, the file system,
  the platform query) goes through a \<open>world\<close> value that is passed in and returned;
  every Python exception is a value of the type \<open>error\<close>.
\<close>

subsection \<open>Strings: \<^verbatim>\<open>str.upper\<close>\<close>

text \<open>
  A Python \<^verbatim>\<open>str\<close> is modelled as a \<open>string\<close>. Board types and target names are
  ASCII identifiers; on ASCII text \<^verbatim>\<open>str.upper\<close> replaces each of the letters a..z by
  the letter A..Z at the same position of the alphabet and keeps every other character.
  Characters outside ASCII, on which \<^verbatim>\<open>str.upper\<close> follows the Unicode tables, are
  outside this model (they are kept unchanged here).
\<close>

definition ascii_lowercase :: string where
  "ascii_lowercase = ''abcdefghijklmnopqrstuvwxyz''"

definition ascii_uppercase :: string where
  "ascii_uppercase = ''ABCDEFGHIJKLMNOPQRSTUVWXYZ''"

definition upper_char :: "char \<Rightarrow> char" where
  "upper_char c =
     (case map_of (zip ascii_lowercase ascii_uppercase) c of Some u \<Rightarrow> u | None \<Rightarrow> c)"

definition upper :: "string \<Rightarrow> string" where
  "upper s = map upper_char s"



subsection \<open>Paths: the part of \<^verbatim>\<open>pathlib\<close> the module uses\<close>

text \<open>
  A \<^verbatim>\<open>pathlib.Path\<close> is kept in its parsed form: the anchor (drive and root; empty
  for a relative path) and the list of components after it. A component is never empty,
  never \<^verbatim>\<open>.\<close> and holds no separator; \<^verbatim>\<open>Path(".")\<close> and \<^verbatim>\<open>Path("/")\<close> have no
  component at all.
\<close>

record path =
  anchor :: string
  parts :: "string list"

text \<open>\<^verbatim>\<open>PurePath.name\<close>: the final component, or the empty string when there is none.\<close>

definition path_name :: "path \<Rightarrow> string" where
  "path_name p = (if parts p = [] then [] else last (parts p))"

text \<open>
  \<^verbatim>\<open>path / name\<close> for a right operand that is the \<^verbatim>\<open>name\<close> of a path: a single
  component is appended, and the empty string leaves the path as it is.
\<close>

definition truediv :: "path \<Rightarrow> string \<Rightarrow> path" where
  "truediv p s = (if s = [] then p else p\<lparr>parts := parts p @ [s]\<rparr>)"

text \<open>\<^verbatim>\<open>str.rfind\<close> for one character: the highest index where it stands, or -1.\<close>

fun rfind :: "char \<Rightarrow> string \<Rightarrow> int" where
  "rfind c [] = - 1"
| "rfind c (x # xs) =
     (let r = rfind c xs in if 0 \<le> r then r + 1 else if x = c then 0 else - 1)"

text \<open>
  \<^verbatim>\<open>PurePath.suffix\<close> (CPython 3.6 to 3.12): the final component from its last dot on,
  when that dot is neither the first nor the last character; empty otherwise.
\<close>

definition path_suffix :: "path \<Rightarrow> string" where
  "path_suffix p =
     (let name = path_name p; i = rfind CHR ''.'' name
      in if 0 < i \<and> i < int (length name) - 1 then drop (nat i) name else [])"

text \<open>\<^verbatim>\<open>PurePath.stem\<close>: the final component without its suffix.\<close>

definition path_stem :: "path \<Rightarrow> string" where
  "path_stem p =
     (let name = path_name p; i = rfind CHR ''.'' name
      in if 0 < i \<and> i < int (length name) - 1 then take (nat i) name else name)"

subsection \<open>Errors\<close>

text \<open>
  The subclasses of \<^verbatim>\<open>OSError\<close> that the file-system calls of the module raise in
  this model (\<^verbatim>\<open>SameFileError\<close> is \<^verbatim>\<open>shutil\<close>'s; \<open>TooManyLinksError\<close> stands
  for an \<^verbatim>\<open>OSError\<close> with \<^verbatim>\<open>errno.ELOOP\<close>).
\<close>

datatype os_error =
    FileExistsError
  | FileNotFoundError
  | IsADirectoryError
  | NotADirectoryError
  | SameFileError
  | TooManyLinksError

text \<open>
  Modelled from the spec: the exception classes \<^verbatim>\<open>DeviceNotFoundError\<close> and
  \<^verbatim>\<open>BinaryFileNotFoundError\<close> of \<^verbatim>\<open>mbed_tools.build.exceptions\<close>, which the module
  imports and raises (the specification's \<^verbatim>\<open>DeviceNotFound\<close> and
  \<^verbatim>\<open>BinaryFileNotFound\<close>). The other constructors are the built-in exceptions that
  the statements of the module can raise: \<^verbatim>\<open>IndexError\<close> from indexing an empty
  tuple, \<^verbatim>\<open>ValueError\<close> from \<^verbatim>\<open>with_suffix\<close>, \<^verbatim>\<open>RuntimeError\<close> from
  \<^verbatim>\<open>resolve\<close>, and the \<^verbatim>\<open>OSError\<close>s of the copy.
\<close>

datatype error =
    DeviceNotFoundError
  | BinaryFileNotFoundError
  | IndexError
  | ValueError
  | RuntimeError
  | OSError os_error

text \<open>
  \<^verbatim>\<open>PurePath.with_suffix\<close> (CPython 3.6 to 3.12): refuses a malformed suffix and a
  path with an empty name; otherwise the suffix replaces the present one, or is appended
  when the name has none.
\<close>

definition with_suffix :: "path \<Rightarrow> string \<Rightarrow> error + path" where
  "with_suffix p suffix =
     (if CHR ''/'' \<in> set suffix then Inl ValueError
      else if (suffix \<noteq> [] \<and> take 1 suffix \<noteq> ''.'') \<or> suffix = ''.'' then Inl ValueError
      else
        let name = path_name p in
        if name = [] then Inl ValueError
        else
          let old_suffix = path_suffix p;
              name' = (if old_suffix = [] then name @ suffix
                       else take (length name - length old_suffix) name @ suffix)
          in Inr (p\<lparr>parts := butlast (parts p) @ [name']\<rparr>))"

subsection \<open>The file system\<close>

text \<open>
  The file system is what \<^verbatim>\<open>lstat\<close> answers for each path: nothing, a regular file
  with its content, a directory, or a symbolic link with its text. A symbolic link is
  followed where it is the final component of a path; a relative link text is read from
  the directory that holds the link, and a component \<^verbatim>\<open>..\<close> is kept as it is
  written. The kernel gives up after 40 links (\<^verbatim>\<open>ELOOP\<close>). Permission bits, hard
  links, special files and failures in the middle of a write are outside the model.
\<close>

datatype node = RegularFile string | Directory | SymbolicLink path

type_synonym filesystem = "path \<Rightarrow> node option"

definition parent :: "path \<Rightarrow> path" where
  "parent p = p\<lparr>parts := butlast (parts p)\<rparr>"

definition joinpath :: "path \<Rightarrow> path \<Rightarrow> path" where
  "joinpath p q = (if anchor q \<noteq> [] then q else p\<lparr>parts := parts p @ parts q\<rparr>)"

datatype lookup = Found path node | Missing path | TooManyLinks

fun walk :: "nat \<Rightarrow> filesystem \<Rightarrow> path \<Rightarrow> lookup" where
  "walk 0 fs p = TooManyLinks"
| "walk (Suc k) fs p =
     (case fs p of
        None \<Rightarrow> Missing p
      | Some (SymbolicLink t) \<Rightarrow> walk k fs (joinpath (parent p) t)
      | Some n \<Rightarrow> Found p n)"

definition symlink_limit :: nat where
  "symlink_limit = 40"

text \<open>\<^verbatim>\<open>os.stat\<close>: follows links; \<open>Found q n\<close> is the entry reached and where it is.\<close>

definition stat :: "filesystem \<Rightarrow> path \<Rightarrow> lookup" where
  "stat fs p = walk (Suc symlink_limit) fs p"

text \<open>\<^verbatim>\<open>Path.exists\<close>: \<^verbatim>\<open>stat\<close> succeeds (a dangling link or a loop of links is
  reported as absent).\<close>

definition fs_exists :: "filesystem \<Rightarrow> path \<Rightarrow> bool" where
  "fs_exists fs p = (case stat fs p of Found q n \<Rightarrow> True | Missing q \<Rightarrow> False | TooManyLinks \<Rightarrow> False)"

definition fs_isdir :: "filesystem \<Rightarrow> path \<Rightarrow> bool" where
  "fs_isdir fs p = (case stat fs p of Found q Directory \<Rightarrow> True | _ \<Rightarrow> False)"

text \<open>\<^verbatim>\<open>Path.resolve()\<close> (not strict) on a mount point, which the operating system
  reports as an absolute, normalised path: the path with its links followed, also when
  nothing is there in the end; a loop of links raises \<^verbatim>\<open>RuntimeError\<close>
  (CPython up to 3.12).\<close>

definition fs_resolve :: "filesystem \<Rightarrow> path \<Rightarrow> error + path" where
  "fs_resolve fs p =
     (case stat fs p of Found q n \<Rightarrow> Inr q | Missing q \<Rightarrow> Inr q | TooManyLinks \<Rightarrow> Inl RuntimeError)"

text \<open>\<^verbatim>\<open>os.path.samefile\<close> as \<^verbatim>\<open>shutil\<close> uses it: both paths lead to one entry; a path
  that leads nowhere is the same file as nothing.\<close>

definition fs_samefile :: "filesystem \<Rightarrow> path \<Rightarrow> path \<Rightarrow> bool" where
  "fs_samefile fs a b =
     (case stat fs a of
        Found x n \<Rightarrow> (case stat fs b of Found y m \<Rightarrow> x = y | _ \<Rightarrow> False)
      | _ \<Rightarrow> False)"

text \<open>A new entry needs a directory to stand in.\<close>

definition check_parent :: "filesystem \<Rightarrow> path \<Rightarrow> os_error option" where
  "check_parent fs p =
     (case stat fs (parent p) of
        Found q Directory \<Rightarrow> None
      | Found q n \<Rightarrow> Some NotADirectoryError
      | Missing q \<Rightarrow> Some FileNotFoundError
      | TooManyLinks \<Rightarrow> Some TooManyLinksError)"

text \<open>\<^verbatim>\<open>os.symlink(text, dst)\<close>: creates the link; refuses a path where anything is
  already, a link included.\<close>

definition os_symlink :: "path \<Rightarrow> path \<Rightarrow> filesystem \<Rightarrow> os_error + filesystem" where
  "os_symlink text dst fs =
     (if fs dst \<noteq> None then Inl FileExistsError
      else case check_parent fs dst of
             Some e \<Rightarrow> Inl e
           | None \<Rightarrow> Inr (fs(dst \<mapsto> SymbolicLink text)))"

text \<open>\<^verbatim>\<open>open(src, 'rb').read()\<close>: links are followed.\<close>

definition read_file :: "filesystem \<Rightarrow> path \<Rightarrow> os_error + string" where
  "read_file fs p =
     (case stat fs p of
        Found q (RegularFile c) \<Rightarrow> Inr c
      | Found q n \<Rightarrow> Inl IsADirectoryError
      | Missing q \<Rightarrow> Inl FileNotFoundError
      | TooManyLinks \<Rightarrow> Inl TooManyLinksError)"

text \<open>\<^verbatim>\<open>open(dst, 'wb').write(c)\<close>: links are followed; the file the path leads to
  is overwritten, or created where the path ends.\<close>

definition write_file :: "filesystem \<Rightarrow> path \<Rightarrow> string \<Rightarrow> os_error + filesystem" where
  "write_file fs p c =
     (case stat fs p of
        Found q (RegularFile old) \<Rightarrow> Inr (fs(q \<mapsto> RegularFile c))
      | Found q n \<Rightarrow> Inl IsADirectoryError
      | Missing q \<Rightarrow>
          (case check_parent fs q of
             Some e \<Rightarrow> Inl e
           | None \<Rightarrow> Inr (fs(q \<mapsto> RegularFile c)))
      | TooManyLinks \<Rightarrow> Inl TooManyLinksError)"

text \<open>
  \<^verbatim>\<open>shutil.copyfile(src, dst, follow_symlinks=...)\<close>: refuses to copy a file onto
  itself; with \<^verbatim>\<open>follow_symlinks=False\<close> and a source that is a symbolic link it
  calls \<^verbatim>\<open>os.symlink(os.readlink(src), dst)\<close>; otherwise it opens the source for
  reading and the destination for writing and copies the content.
\<close>

definition copyfile :: "path \<Rightarrow> path \<Rightarrow> bool \<Rightarrow> filesystem \<Rightarrow> os_error + filesystem" where
  "copyfile src dst follow_symlinks fs =
     (if fs_samefile fs src dst then Inl SameFileError
      else case fs src of
             Some (SymbolicLink text) \<Rightarrow>
               if \<not> follow_symlinks then os_symlink text dst fs
               else (case read_file fs src of Inl e \<Rightarrow> Inl e | Inr c \<Rightarrow> write_file fs dst c)
           | _ \<Rightarrow> (case read_file fs src of Inl e \<Rightarrow> Inl e | Inr c \<Rightarrow> write_file fs dst c))"

text \<open>
  \<^verbatim>\<open>shutil.copy(src, dst, follow_symlinks=...)\<close>: when \<^verbatim>\<open>dst\<close> is a directory the
  file goes into it under the base name of \<^verbatim>\<open>src\<close>; then \<^verbatim>\<open>copyfile\<close> and
  \<^verbatim>\<open>copymode\<close> (the latter changes permission bits only).
\<close>

definition fs_copy :: "path \<Rightarrow> path \<Rightarrow> bool \<Rightarrow> filesystem \<Rightarrow> os_error + filesystem" where
  "fs_copy src dst follow_symlinks fs =
     (let dst' = (if fs_isdir fs dst then truediv dst (path_name src) else dst)
      in copyfile src dst' follow_symlinks fs)"

subsection \<open>Devices\<close>

text \<open>
  Modelled from the spec: the class of the board object that a device holds in
  \<^verbatim>\<open>device.mbed_board\<close>, of which the module reads the board-type identifier
  (\<^verbatim>\<open>device.mbed_board.board_type\<close>).
\<close>

record board =
  board_type :: string

text \<open>
  Modelled from the spec: the class \<^verbatim>\<open>Device\<close> of \<^verbatim>\<open>mbed_tools.devices.device\<close>,
  of which the module reads the board and the sequence of mount points
  (\<^verbatim>\<open>device.mount_points\<close>, a tuple of paths, which may be empty).
\<close>

record device =
  mbed_board :: board
  mount_points :: "path list"

text \<open>
  Modelled from the spec: the class \<^verbatim>\<open>ConnectedDevices\<close> of
  \<^verbatim>\<open>mbed_tools.devices\<close>, of which the module reads the ordered listing
  (\<^verbatim>\<open>connected_devices.identified_devices\<close>).
\<close>

record connected_devices =
  identified_devices :: "device list"

subsection \<open>The world and the calls that reach it\<close>

datatype event =
    Call_get_connected_devices
  | Call_exists path
  | Call_resolve path
  | Call_shutil_copy path path
  | Call_os_sync

text \<open>
  \<open>connected\<close> is what the enumeration answers at this moment, \<open>files\<close> the file
  system, \<open>system\<close> the answer of \<^verbatim>\<open>platform.system()\<close>, and \<open>trace\<close> the calls
  made so far, oldest first.
\<close>

record world =
  connected :: connected_devices
  files :: filesystem
  system :: string
  trace :: "event list"

definition emit :: "event \<Rightarrow> world \<Rightarrow> world" where
  "emit e w = w\<lparr>trace := trace w @ [e]\<rparr>"

text \<open>
  Modelled from the spec: \<^verbatim>\<open>get_connected_devices\<close> of
  \<^verbatim>\<open>mbed_tools.devices.devices\<close>, the external enumeration collaborator: each call
  queries the operating system and returns the current listing.
\<close>

definition get_connected_devices :: "world \<Rightarrow> connected_devices \<times> world" where
  "get_connected_devices w = (connected w, emit Call_get_connected_devices w)"

definition path_exists :: "path \<Rightarrow> world \<Rightarrow> bool \<times> world" where
  "path_exists p w = (fs_exists (files w) p, emit (Call_exists p) w)"

definition path_resolve :: "path \<Rightarrow> world \<Rightarrow> (error + path) \<times> world" where
  "path_resolve p w = (fs_resolve (files w) p, emit (Call_resolve p) w)"

definition shutil_copy :: "path \<Rightarrow> path \<Rightarrow> bool \<Rightarrow> world \<Rightarrow> (error + unit) \<times> world" where
  "shutil_copy src dst follow_symlinks w =
     (let w1 = emit (Call_shutil_copy src dst) w
      in case fs_copy src dst follow_symlinks (files w1) of
           Inl e \<Rightarrow> (Inl (OSError e), w1)
         | Inr fs' \<Rightarrow> (Inr (), w1\<lparr>files := fs'\<rparr>))"

definition os_sync :: "world \<Rightarrow> (error + unit) \<times> world" where
  "os_sync w = (Inr (), emit Call_os_sync w)"

definition platform_system :: "world \<Rightarrow> string" where
  "platform_system w = system w"

subsection \<open>The functions of the module\<close>

text \<open>\<^verbatim>\<open>_flash_dev(disk, image_path)\<close>\<close>

definition flash_dev :: "path \<Rightarrow> path \<Rightarrow> world \<Rightarrow> (error + unit) \<times> world" where
  "flash_dev disk image_path w =
     (case shutil_copy image_path disk False w of
        (Inl e, w1) \<Rightarrow> (Inl e, w1)
      | (Inr u, w1) \<Rightarrow>
          if \<not> platform_system w1 = ''Windows'' then os_sync w1 else (Inr (), w1))"

text \<open>The loop of \<^verbatim>\<open>_find_connected_device\<close> over \<^verbatim>\<open>identified_devices\<close>, and the
  \<^verbatim>\<open>raise\<close> after it.\<close>

fun scan_devices :: "string \<Rightarrow> device list \<Rightarrow> error + device" where
  "scan_devices mbed_target [] = Inl DeviceNotFoundError"
| "scan_devices mbed_target (dev # rest) =
     (if upper (board_type (mbed_board dev)) = upper mbed_target then Inr dev
      else scan_devices mbed_target rest)"

text \<open>\<^verbatim>\<open>_find_connected_device(mbed_target)\<close>\<close>

definition find_connected_device :: "string \<Rightarrow> world \<Rightarrow> (error + device) \<times> world" where
  "find_connected_device mbed_target w =
     (case get_connected_devices w of
        (connected_devices, w1) \<Rightarrow>
          (scan_devices mbed_target (identified_devices connected_devices), w1))"

text \<open>\<^verbatim>\<open>_build_binary_file_path(program_path, build_dir, hex_file)\<close>\<close>

definition build_binary_file_path ::
  "path \<Rightarrow> path \<Rightarrow> bool \<Rightarrow> world \<Rightarrow> (error + path) \<times> world" where
  "build_binary_file_path program_path build_dir hex_file w =
     (let fw_fbase = truediv build_dir (path_name program_path)
      in case with_suffix fw_fbase (if hex_file then ''.hex'' else ''.bin'') of
           Inl e \<Rightarrow> (Inl e, w)
         | Inr fw_file \<Rightarrow>
             (case path_exists fw_file w of
                (found, w1) \<Rightarrow>
                  if \<not> found then (Inl BinaryFileNotFoundError, w1) else (Inr fw_file, w1)))"

text \<open>\<^verbatim>\<open>flash_binary(program_path, build_dir, mbed_target, hex_file)\<close>. The argument
  \<^verbatim>\<open>device.mount_points[0].resolve()\<close> is evaluated before \<^verbatim>\<open>_flash_dev\<close> is
  entered: first the index (\<^verbatim>\<open>IndexError\<close> on an empty tuple), then \<^verbatim>\<open>resolve\<close>.\<close>

definition flash_binary ::
  "path \<Rightarrow> path \<Rightarrow> string \<Rightarrow> bool \<Rightarrow> world \<Rightarrow> (error + unit) \<times> world" where
  "flash_binary program_path build_dir mbed_target hex_file w =
     (case find_connected_device mbed_target w of
        (Inl e, w1) \<Rightarrow> (Inl e, w1)
      | (Inr device, w1) \<Rightarrow>
          (case build_binary_file_path program_path build_dir hex_file w1 of
             (Inl e, w2) \<Rightarrow> (Inl e, w2)
           | (Inr fw_file, w2) \<Rightarrow>
               (case mount_points device of
                  [] \<Rightarrow> (Inl IndexError, w2)
                | m # ms \<Rightarrow>
                    (case path_resolve m w2 of
                       (Inl e, w3) \<Rightarrow> (Inl e, w3)
                     | (Inr disk, w3) \<Rightarrow> flash_dev disk fw_file w3))))"


subsection \<open>The terms of the specification\<close>

text \<open>
  The candidate path in the specification's words: the build directory joined with the
  base name of the project path, with the selected extension.
\<close>

definition candidate_path :: "path \<Rightarrow> path \<Rightarrow> bool \<Rightarrow> error + path" where
  "candidate_path build_dir project_path use_hex =
     with_suffix (truediv build_dir (path_name project_path)) (if use_hex then ''.hex'' else ''.bin'')"

text \<open>The calls made between the world \<open>w\<close> and a later world \<open>w'\<close>.\<close>

definition new_events :: "world \<Rightarrow> world \<Rightarrow> event list" where
  "new_events w w' = drop (length (trace w)) (trace w')"

subsection \<open>Example worlds\<close>

text \<open>
  A project \<^verbatim>\<open>myapp\<close> built into \<^verbatim>\<open>/build\<close>, boards mounted under
  \<^verbatim>\<open>/media\<close>, and file systems in which the artifact or the destination is a
  symbolic link.
\<close>

definition initial_world :: "device list \<Rightarrow> filesystem \<Rightarrow> string \<Rightarrow> world" where
  "initial_world devices fs sys =
     \<lparr>connected = \<lparr>identified_devices = devices\<rparr>, files = fs, system = sys, trace = []\<rparr>"

definition build_dir_example :: path where
  "build_dir_example = \<lparr>anchor = ''/'', parts = [''build'']\<rparr>"

definition myapp :: path where
  "myapp = \<lparr>anchor = [], parts = [''myapp'']\<rparr>"

definition myapp_bin :: path where
  "myapp_bin = \<lparr>anchor = ''/'', parts = [''build'', ''myapp.bin'']\<rparr>"

definition myapp_hex :: path where
  "myapp_hex = \<lparr>anchor = ''/'', parts = [''build'', ''myapp.hex'']\<rparr>"

definition daplink :: path where
  "daplink = \<lparr>anchor = ''/'', parts = [''media'', ''DAPLINK'']\<rparr>"

definition daplink2 :: path where
  "daplink2 = \<lparr>anchor = ''/'', parts = [''media'', ''DAPLINK2'']\<rparr>"

definition flashed_bin :: path where
  "flashed_bin = \<lparr>anchor = ''/'', parts = [''media'', ''DAPLINK'', ''myapp.bin'']\<rparr>"



definition nucleo_device :: device where
  "nucleo_device =
     \<lparr>mbed_board = \<lparr>board_type = ''NUCLEO_F429ZI''\<rparr>,
      mount_points = [\<lparr>anchor = ''/'', parts = [''media'', ''NODE_F429ZI'']\<rparr>]\<rparr>"

definition k64f_device :: device where
  "k64f_device = \<lparr>mbed_board = \<lparr>board_type = ''K64F''\<rparr>, mount_points = [daplink, daplink2]\<rparr>"

definition k64f_lower_device :: device where
  "k64f_lower_device = \<lparr>mbed_board = \<lparr>board_type = ''k64f''\<rparr>, mount_points = [daplink2]\<rparr>"

definition k64f_unmounted :: device where
  "k64f_unmounted = \<lparr>mbed_board = \<lparr>board_type = ''K64F''\<rparr>, mount_points = []\<rparr>"


definition fs_flash :: filesystem where
  "fs_flash = [build_dir_example \<mapsto> Directory, myapp_bin \<mapsto> RegularFile ''image'',
               daplink \<mapsto> Directory, daplink2 \<mapsto> Directory]"



section \<open>Properties of the model\<close>

subsection \<open>Upper-casing and equality up to case\<close>





subsection \<open>The scan over the connected devices\<close>



lemma find_connected_device_eq:
  "find_connected_device t w =
     (scan_devices t (identified_devices (connected w)), emit Call_get_connected_devices w)"
  by (simp add: find_connected_device_def get_connected_devices_def)

subsection \<open>Names, stems and suffixes\<close>

lemma rfind_lt: "rfind c xs < int (length xs)"
  by (induction xs) (auto simp: Let_def)



lemma path_name_stem_suffix: "path_name p = path_stem p @ path_suffix p"
  by (simp add: path_stem_def path_suffix_def Let_def)


lemma length_path_stem:
  "length (path_stem p) = length (path_name p) - length (path_suffix p)"
  using rfind_lt [of "CHR ''.''" "path_name p"]
  by (auto simp: path_stem_def path_suffix_def Let_def)

lemma with_suffix_eq:
  assumes "ext = ''.hex'' \<or> ext = ''.bin''"
  shows "with_suffix p ext =
           (if path_name p = [] then Inl ValueError
            else Inr (p\<lparr>parts := butlast (parts p) @ [path_stem p @ ext]\<rparr>))"
proof -
  have "take (length (path_name p) - length (path_suffix p)) (path_name p) = path_stem p"
    using path_name_stem_suffix [of p] length_path_stem [of p] by (metis append_eq_conv_conj)
  moreover have "path_suffix p = [] \<Longrightarrow> path_stem p = path_name p"
    using path_name_stem_suffix [of p] by simp
  ultimately show ?thesis
    using assms by (auto simp: with_suffix_def Let_def)
qed







text \<open>
  Two edges of \<^verbatim>\<open>with_suffix\<close>: a base name that has a suffix already loses it to
  the new one, and a joined path without a name (both paths are \<^verbatim>\<open>Path(".")\<close>) is
  refused with \<^verbatim>\<open>ValueError\<close>.
\<close>

lemma candidate_path_replaces_suffix:
  "candidate_path \<lparr>anchor = ''/'', parts = [''build'']\<rparr> \<lparr>anchor = [], parts = [''my.app'']\<rparr> False
     = Inr \<lparr>anchor = ''/'', parts = [''build'', ''my.bin'']\<rparr>"
  by (simp add: candidate_path_def with_suffix_eq path_stem_def path_name_def truediv_def Let_def)

lemma candidate_path_empty_name:
  "candidate_path \<lparr>anchor = [], parts = []\<rparr> \<lparr>anchor = [], parts = []\<rparr> hex_file
     = Inl ValueError"
  by (simp add: candidate_path_def with_suffix_eq path_name_def truediv_def)


subsection \<open>Lookups and copies in the file system\<close>

lemma stat_missing: "fs p = None \<Longrightarrow> stat fs p = Missing p"
  by (simp add: stat_def)

lemma stat_file: "fs p = Some (RegularFile c) \<Longrightarrow> stat fs p = Found p (RegularFile c)"
  by (simp add: stat_def)

lemma stat_dir: "fs p = Some Directory \<Longrightarrow> stat fs p = Found p Directory"
  by (simp add: stat_def)













subsection \<open>The pipeline, step by step\<close>

lemma emit_simps:
  "connected (emit e w) = connected w"
  "files (emit e w) = files w"
  "system (emit e w) = system w"
  "trace (emit e w) = trace w @ [e]"
  by (simp_all add: emit_def)


lemma build_binary_file_path_eq:
  "build_binary_file_path p b h w =
     (case candidate_path b p h of
        Inl e \<Rightarrow> (Inl e, w)
      | Inr f \<Rightarrow> (if fs_exists (files w) f then Inr f else Inl BinaryFileNotFoundError,
                  emit (Call_exists f) w))"
  by (simp add: build_binary_file_path_def candidate_path_def path_exists_def split: sum.splits)

lemma flash_dev_eq:
  "flash_dev disk f w =
     (case fs_copy f disk False (files w) of
        Inl e \<Rightarrow> (Inl (OSError e), emit (Call_shutil_copy f disk) w)
      | Inr fs' \<Rightarrow>
          (Inr (),
           if system w = ''Windows'' then (emit (Call_shutil_copy f disk) w)\<lparr>files := fs'\<rparr>
           else emit Call_os_sync ((emit (Call_shutil_copy f disk) w)\<lparr>files := fs'\<rparr>)))"
  by (simp add: flash_dev_def shutil_copy_def os_sync_def platform_system_def emit_simps Let_def
      split: sum.splits)

lemma flash_binary_eq:
  "flash_binary p b t h w =
     (case scan_devices t (identified_devices (connected w)) of
        Inl e \<Rightarrow> (Inl e, emit Call_get_connected_devices w)
      | Inr d \<Rightarrow>
          (case build_binary_file_path p b h (emit Call_get_connected_devices w) of
             (Inl e, w2) \<Rightarrow> (Inl e, w2)
           | (Inr f, w2) \<Rightarrow>
               (case mount_points d of
                  [] \<Rightarrow> (Inl IndexError, w2)
                | m # ms \<Rightarrow>
                    (case fs_resolve (files w2) m of
                       Inl e \<Rightarrow> (Inl e, emit (Call_resolve m) w2)
                     | Inr disk \<Rightarrow> flash_dev disk f (emit (Call_resolve m) w2)))))"
  by (simp add: flash_binary_def find_connected_device_eq path_resolve_def
      split: sum.splits prod.splits list.splits)

lemma flash_binary_new_events:
  "new_events w (snd (flash_binary p b t h w)) =
     (case scan_devices t (identified_devices (connected w)) of
        Inl e \<Rightarrow> [Call_get_connected_devices]
      | Inr d \<Rightarrow>
          (case candidate_path b p h of
             Inl e \<Rightarrow> [Call_get_connected_devices]
           | Inr f \<Rightarrow>
               if \<not> fs_exists (files w) f then [Call_get_connected_devices, Call_exists f]
               else
                 (case mount_points d of
                    [] \<Rightarrow> [Call_get_connected_devices, Call_exists f]
                  | m # ms \<Rightarrow>
                      (case fs_resolve (files w) m of
                         Inl e \<Rightarrow> [Call_get_connected_devices, Call_exists f, Call_resolve m]
                       | Inr disk \<Rightarrow>
                           (case fs_copy f disk False (files w) of
                              Inl e \<Rightarrow>
                                [Call_get_connected_devices, Call_exists f, Call_resolve m,
                                 Call_shutil_copy f disk]
                            | Inr fs' \<Rightarrow>
                                [Call_get_connected_devices, Call_exists f, Call_resolve m,
                                 Call_shutil_copy f disk]
                                @ (if system w = ''Windows'' then [] else [Call_os_sync]))))))"
  by (simp add: flash_binary_eq build_binary_file_path_eq flash_dev_eq emit_simps new_events_def
      split: sum.splits list.splits)

lemma flash_binary_result:
  "fst (flash_binary p b t h w) =
     (case scan_devices t (identified_devices (connected w)) of
        Inl e \<Rightarrow> Inl e
      | Inr d \<Rightarrow>
          (case candidate_path b p h of
             Inl e \<Rightarrow> Inl e
           | Inr f \<Rightarrow>
               if \<not> fs_exists (files w) f then Inl BinaryFileNotFoundError
               else
                 (case mount_points d of
                    [] \<Rightarrow> Inl IndexError
                  | m # ms \<Rightarrow>
                      (case fs_resolve (files w) m of
                         Inl e \<Rightarrow> Inl e
                       | Inr disk \<Rightarrow>
                           (case fs_copy f disk False (files w) of
                              Inl e \<Rightarrow> Inl (OSError e)
                            | Inr fs' \<Rightarrow> Inr ())))))"
  by (simp add: flash_binary_eq build_binary_file_path_eq flash_dev_eq emit_simps
      split: sum.splits list.splits)

lemma flash_binary_files:
  "files (snd (flash_binary p b t h w)) =
     (case scan_devices t (identified_devices (connected w)) of
        Inl e \<Rightarrow> files w
      | Inr d \<Rightarrow>
          (case candidate_path b p h of
             Inl e \<Rightarrow> files w
           | Inr f \<Rightarrow>
               if \<not> fs_exists (files w) f then files w
               else
                 (case mount_points d of
                    [] \<Rightarrow> files w
                  | m # ms \<Rightarrow>
                      (case fs_resolve (files w) m of
                         Inl e \<Rightarrow> files w
                       | Inr disk \<Rightarrow>
                           (case fs_copy f disk False (files w) of
                              Inl e \<Rightarrow> files w
                            | Inr fs' \<Rightarrow> fs')))))"
  by (simp add: flash_binary_eq build_binary_file_path_eq flash_dev_eq emit_simps
      split: sum.splits list.splits)

lemma flash_binary_unchanged:
  "connected (snd (flash_binary p b t h w)) = connected w"
  "system (snd (flash_binary p b t h w)) = system w"
  by (simp_all add: flash_binary_eq build_binary_file_path_eq flash_dev_eq emit_simps
      split: sum.splits list.splits)


subsection \<open>The example worlds, evaluated\<close>

lemmas example_paths =
  build_dir_example_def myapp_def myapp_bin_def myapp_hex_def daplink_def daplink2_def
  flashed_bin_def

lemma initial_world_simps:
  "connected (initial_world ds fs sys) = \<lparr>identified_devices = ds\<rparr>"
  "files (initial_world ds fs sys) = fs"
  "system (initial_world ds fs sys) = sys"
  "trace (initial_world ds fs sys) = []"
  by (simp_all add: initial_world_def)


lemma board_types:
  "board_type (mbed_board k64f_device) = ''K64F''"
  "board_type (mbed_board k64f_lower_device) = ''k64f''"
  "board_type (mbed_board nucleo_device) = ''NUCLEO_F429ZI''"
  by (simp_all add: k64f_device_def k64f_lower_device_def nucleo_device_def)

lemma k64f_mount_points: "mount_points k64f_device = [daplink, daplink2]"
  by (simp add: k64f_device_def)

lemma k64f_unmounted_points: "mount_points k64f_unmounted = []"
  by (simp add: k64f_unmounted_def)

lemma scan_examples:
  "scan_devices ''k64f'' [nucleo_device, k64f_device, k64f_lower_device] = Inr k64f_device"
  "scan_devices ''K64F'' [nucleo_device, k64f_lower_device, k64f_device] = Inr k64f_lower_device"
  "scan_devices ''k64f'' [k64f_unmounted] = Inr k64f_unmounted"
  "scan_devices ''k64f'' [nucleo_device] = Inl DeviceNotFoundError"
  "scan_devices ''k64f'' [] = Inl DeviceNotFoundError"
  by (simp_all add: nucleo_device_def k64f_device_def k64f_lower_device_def k64f_unmounted_def
      upper_def upper_char_def ascii_lowercase_def ascii_uppercase_def)

lemma find_k64f_only:
  "find_connected_device ''k64f'' (initial_world [k64f_device] fs sys)
     = (Inr k64f_device, emit Call_get_connected_devices (initial_world [k64f_device] fs sys))"
  by (simp add: find_connected_device_eq initial_world_simps board_types upper_def upper_char_def
      ascii_lowercase_def ascii_uppercase_def)

lemma candidate_myapp:
  "candidate_path build_dir_example myapp False = Inr myapp_bin"
  "candidate_path build_dir_example myapp True = Inr myapp_hex"
  by (simp_all add: candidate_path_def with_suffix_eq path_stem_def path_name_def truediv_def
      myapp_def build_dir_example_def myapp_bin_def myapp_hex_def Let_def)



lemma fs_flash_lookups:
  "fs_exists fs_flash myapp_bin"
  "\<not> fs_exists fs_flash myapp_hex"
  "fs_resolve fs_flash daplink = Inr daplink"
  by (simp_all add: fs_exists_def fs_resolve_def stat_file stat_dir stat_missing fs_flash_def
      example_paths)

lemma fs_flash_copy:
  "fs_copy myapp_bin daplink False fs_flash = Inr (fs_flash(flashed_bin \<mapsto> RegularFile ''image''))"
proof -
  have d: "fs_isdir fs_flash daplink"
    by (simp add: fs_isdir_def stat_dir fs_flash_def example_paths)
  have t: "truediv daplink (path_name myapp_bin) = flashed_bin"
    by (simp add: truediv_def path_name_def example_paths)
  have src: "stat fs_flash myapp_bin = Found myapp_bin (RegularFile ''image'')"
    by (rule stat_file) (simp add: fs_flash_def example_paths)
  have dst: "stat fs_flash flashed_bin = Missing flashed_bin"
    by (rule stat_missing) (simp add: fs_flash_def example_paths)
  have par: "stat fs_flash (parent flashed_bin) = Found daplink Directory"
    by (simp add: parent_def flashed_bin_def) (simp add: stat_dir fs_flash_def example_paths)
  have l: "fs_flash myapp_bin = Some (RegularFile ''image'')"
    by (simp add: fs_flash_def example_paths)
  show ?thesis
    by (simp add: fs_copy_def d t copyfile_def fs_samefile_def src dst l read_file_def
        write_file_def check_parent_def par)
qed

lemma flash_example_linux:
  "fst (flash_binary myapp build_dir_example ''k64f'' False
     (initial_world [nucleo_device, k64f_device, k64f_lower_device] fs_flash sys)) = Inr ()"
  by (simp add: flash_binary_result initial_world_simps scan_examples candidate_myapp
      fs_flash_lookups k64f_mount_points fs_flash_copy del: scan_devices.simps)

lemma flash_example_events:
  "new_events (initial_world [nucleo_device, k64f_device, k64f_lower_device] fs_flash sys)
     (snd (flash_binary myapp build_dir_example ''k64f'' False
        (initial_world [nucleo_device, k64f_device, k64f_lower_device] fs_flash sys))) =
   [Call_get_connected_devices, Call_exists myapp_bin, Call_resolve daplink,
    Call_shutil_copy myapp_bin daplink] @ (if sys = ''Windows'' then [] else [Call_os_sync])"
  by (simp add: flash_binary_new_events initial_world_simps scan_examples candidate_myapp
      fs_flash_lookups k64f_mount_points fs_flash_copy del: scan_devices.simps)





section \<open>The claims\<close>


subsection \<open>C1\<close>




subsection \<open>C2\<close>




subsection \<open>C3\<close>

text \<open>
  C3. When the device resolution fails, \<^verbatim>\<open>flash_binary\<close> fails with the same error
  and leaves the world as it was but for the one enumeration call: no existence check,
  no copy, no change of the file system. When the device is found and the artifact
  location fails, \<^verbatim>\<open>flash_binary\<close> fails with that error, the file system is
  unchanged, and neither a copy nor a sync has been called.
\<close>

theorem flash_binary_fail_fast:
  "(\<forall>e. fst (find_connected_device t w) = Inl e \<longrightarrow>
        flash_binary p b t h w = (Inl e, emit Call_get_connected_devices w))
   \<and> (\<forall>d w1 e. find_connected_device t w = (Inr d, w1)
               \<and> fst (build_binary_file_path p b h w1) = Inl e \<longrightarrow>
         fst (flash_binary p b t h w) = Inl e
         \<and> files (snd (flash_binary p b t h w)) = files w
         \<and> (\<forall>src dst. Call_shutil_copy src dst
               \<notin> set (new_events w (snd (flash_binary p b t h w))))
         \<and> Call_os_sync \<notin> set (new_events w (snd (flash_binary p b t h w))))"
proof (intro conjI allI impI)
  fix e assume "fst (find_connected_device t w) = Inl e"
  then show "flash_binary p b t h w = (Inl e, emit Call_get_connected_devices w)"
    by (simp add: flash_binary_eq find_connected_device_eq)
next
  fix d w1 e src dst
  assume a: "find_connected_device t w = (Inr d, w1) \<and> fst (build_binary_file_path p b h w1) = Inl e"
  then have s: "scan_devices t (identified_devices (connected w)) = Inr d"
    and w1: "w1 = emit Call_get_connected_devices w"
    by (simp_all add: find_connected_device_eq)
  from a w1 have c: "(\<exists>f. candidate_path b p h = Inr f \<and> \<not> fs_exists (files w) f
                        \<and> e = BinaryFileNotFoundError) \<or> candidate_path b p h = Inl e"
    by (auto simp: build_binary_file_path_eq emit_simps split: sum.splits if_splits)
  from s c show "fst (flash_binary p b t h w) = Inl e"
    by (auto simp: flash_binary_result)
  from s c show "files (snd (flash_binary p b t h w)) = files w"
    by (auto simp: flash_binary_files)
  from s c show "Call_shutil_copy src dst \<notin> set (new_events w (snd (flash_binary p b t h w)))"
    by (auto simp: flash_binary_new_events)
  from s c show "Call_os_sync \<notin> set (new_events w (snd (flash_binary p b t h w)))"
    by (auto simp: flash_binary_new_events)
qed

text \<open>
  No K64F board connected: \<^verbatim>\<open>DeviceNotFoundError\<close> after the enumeration alone. A K64F
  board connected and only \<^verbatim>\<open>/build/myapp.bin\<close> present while the hex file is
  asked for: \<^verbatim>\<open>BinaryFileNotFoundError\<close>, and nothing copied.
\<close>

theorem flash_binary_fail_fast_witness:
  "fst (find_connected_device ''k64f'' (initial_world [nucleo_device] fs_flash ''Linux''))
     = Inl DeviceNotFoundError
   \<and> flash_binary myapp build_dir_example ''k64f'' False
        (initial_world [nucleo_device] fs_flash ''Linux'')
     = (Inl DeviceNotFoundError,
        \<lparr>connected = \<lparr>identified_devices = [nucleo_device]\<rparr>, files = fs_flash,
         system = ''Linux'', trace = [Call_get_connected_devices]\<rparr>)
   \<and> fst (build_binary_file_path myapp build_dir_example True
        (emit Call_get_connected_devices (initial_world [k64f_device] fs_flash ''Linux'')))
     = Inl BinaryFileNotFoundError
   \<and> fst (flash_binary myapp build_dir_example ''k64f'' True
        (initial_world [k64f_device] fs_flash ''Linux'')) = Inl BinaryFileNotFoundError
   \<and> files (snd (flash_binary myapp build_dir_example ''k64f'' True
        (initial_world [k64f_device] fs_flash ''Linux''))) = fs_flash
   \<and> (\<forall>src dst. Call_shutil_copy src dst \<notin>
        set (new_events (initial_world [k64f_device] fs_flash ''Linux'')
          (snd (flash_binary myapp build_dir_example ''k64f'' True
             (initial_world [k64f_device] fs_flash ''Linux'')))))"
proof -
  let ?w0 = "initial_world [nucleo_device] fs_flash ''Linux''"
  let ?w1 = "initial_world [k64f_device] fs_flash ''Linux''"
  have f: "fst (find_connected_device ''k64f'' ?w0) = Inl DeviceNotFoundError"
    by (simp add: find_connected_device_eq initial_world_simps scan_examples
        del: scan_devices.simps)
  with flash_binary_fail_fast [of "''k64f''" ?w0 myapp build_dir_example False]
  have r: "flash_binary myapp build_dir_example ''k64f'' False ?w0
     = (Inl DeviceNotFoundError, emit Call_get_connected_devices ?w0)"
    by blast
  have e: "emit Call_get_connected_devices ?w0 =
     \<lparr>connected = \<lparr>identified_devices = [nucleo_device]\<rparr>, files = fs_flash,
         system = ''Linux'', trace = [Call_get_connected_devices]\<rparr>"
    by (simp add: emit_def initial_world_def)
  have a: "fst (build_binary_file_path myapp build_dir_example True
        (emit Call_get_connected_devices ?w1)) = Inl BinaryFileNotFoundError"
    by (simp add: build_binary_file_path_eq candidate_myapp emit_simps initial_world_simps
        fs_flash_lookups)
  from flash_binary_fail_fast [of "''k64f''" ?w1 myapp build_dir_example True]
    find_k64f_only [of fs_flash "''Linux''"] a
  have "fst (flash_binary myapp build_dir_example ''k64f'' True ?w1) = Inl BinaryFileNotFoundError
      \<and> files (snd (flash_binary myapp build_dir_example ''k64f'' True ?w1)) = files ?w1
      \<and> (\<forall>src dst. Call_shutil_copy src dst \<notin>
            set (new_events ?w1 (snd (flash_binary myapp build_dir_example ''k64f'' True ?w1))))"
    by blast
  with f r e a show ?thesis by (simp add: initial_world_simps)
qed


subsection \<open>C4\<close>





subsection \<open>C5\<close>




subsection \<open>C6\<close>




subsection \<open>C7\<close>

text \<open>
  C7. After a successful \<^verbatim>\<open>flash_binary\<close> on a platform other than Windows, the
  calls it made end with the copy followed by one sync, and no other sync precedes them.
  On Windows no call of \<^verbatim>\<open>flash_binary\<close> syncs, whatever its outcome.
\<close>

theorem flash_binary_sync_after_copy:
  "(fst (flash_binary p b t h w) = Inr () \<and> system w \<noteq> ''Windows'' \<longrightarrow>
      (\<exists>evs src dst.
          new_events w (snd (flash_binary p b t h w)) = evs @ [Call_shutil_copy src dst, Call_os_sync]
        \<and> Call_os_sync \<notin> set evs))
   \<and> (system w = ''Windows'' \<longrightarrow>
        Call_os_sync \<notin> set (new_events w (snd (flash_binary p b t h w))))"
proof (intro conjI impI)
  assume a: "fst (flash_binary p b t h w) = Inr () \<and> system w \<noteq> ''Windows''"
  then obtain d f m ms disk fs' where
    "scan_devices t (identified_devices (connected w)) = Inr d"
    "candidate_path b p h = Inr f" "fs_exists (files w) f" "mount_points d = m # ms"
    "fs_resolve (files w) m = Inr disk" "fs_copy f disk False (files w) = Inr fs'"
    by (auto simp: flash_binary_result split: sum.splits list.splits if_splits)
  with a have "new_events w (snd (flash_binary p b t h w)) =
      [Call_get_connected_devices, Call_exists f, Call_resolve m]
      @ [Call_shutil_copy f disk, Call_os_sync]"
    by (simp add: flash_binary_new_events)
  moreover have "Call_os_sync \<notin> set [Call_get_connected_devices, Call_exists f, Call_resolve m]"
    by simp
  ultimately show "\<exists>evs src dst.
          new_events w (snd (flash_binary p b t h w)) = evs @ [Call_shutil_copy src dst, Call_os_sync]
        \<and> Call_os_sync \<notin> set evs" by blast
next
  assume "system w = ''Windows''"
  then show "Call_os_sync \<notin> set (new_events w (snd (flash_binary p b t h w)))"
    by (auto simp: flash_binary_new_events split: sum.splits list.splits)
qed

text \<open>
  The same flash on Linux and on Windows.
\<close>

theorem flash_binary_sync_after_copy_witness:
  "fst (flash_binary myapp build_dir_example ''k64f'' False
      (initial_world [nucleo_device, k64f_device, k64f_lower_device] fs_flash ''Linux'')) = Inr ()
   \<and> (\<exists>evs src dst.
        new_events (initial_world [nucleo_device, k64f_device, k64f_lower_device] fs_flash ''Linux'')
          (snd (flash_binary myapp build_dir_example ''k64f'' False
            (initial_world [nucleo_device, k64f_device, k64f_lower_device] fs_flash ''Linux'')))
          = evs @ [Call_shutil_copy src dst, Call_os_sync]
        \<and> Call_os_sync \<notin> set evs)
   \<and> new_events (initial_world [nucleo_device, k64f_device, k64f_lower_device] fs_flash ''Linux'')
        (snd (flash_binary myapp build_dir_example ''k64f'' False
          (initial_world [nucleo_device, k64f_device, k64f_lower_device] fs_flash ''Linux'')))
      = [Call_get_connected_devices, Call_exists myapp_bin, Call_resolve daplink,
         Call_shutil_copy myapp_bin daplink, Call_os_sync]
   \<and> fst (flash_binary myapp build_dir_example ''k64f'' False
        (initial_world [nucleo_device, k64f_device, k64f_lower_device] fs_flash ''Windows'')) = Inr ()
   \<and> Call_os_sync \<notin> set
        (new_events (initial_world [nucleo_device, k64f_device, k64f_lower_device] fs_flash ''Windows'')
          (snd (flash_binary myapp build_dir_example ''k64f'' False
            (initial_world [nucleo_device, k64f_device, k64f_lower_device] fs_flash ''Windows''))))"
proof -
  let ?l = "initial_world [nucleo_device, k64f_device, k64f_lower_device] fs_flash ''Linux''"
  let ?v = "initial_world [nucleo_device, k64f_device, k64f_lower_device] fs_flash ''Windows''"
  have sl: "system ?l \<noteq> ''Windows''" and sv: "system ?v = ''Windows''"
    by (simp_all add: initial_world_simps)
  from flash_binary_sync_after_copy [of myapp build_dir_example "''k64f''" False ?l]
    flash_example_linux [of "''Linux''"] sl
  have 1: "\<exists>evs src dst.
        new_events ?l (snd (flash_binary myapp build_dir_example ''k64f'' False ?l))
          = evs @ [Call_shutil_copy src dst, Call_os_sync]
        \<and> Call_os_sync \<notin> set evs" by blast
  from flash_binary_sync_after_copy [of myapp build_dir_example "''k64f''" False ?v] sv
  have 2: "Call_os_sync \<notin> set
        (new_events ?v (snd (flash_binary myapp build_dir_example ''k64f'' False ?v)))" by blast
  from 1 2 flash_example_linux [of "''Linux''"] flash_example_linux [of "''Windows''"]
    flash_example_events [of "''Linux''"]
  show ?thesis by simp
qed


subsection \<open>C8\<close>




subsection \<open>C9\<close>

text \<open>
  C9. Every call of \<^verbatim>\<open>flash_binary\<close> calls the enumeration exactly once, whatever
  its outcome, and leaves the listing of the world alone. Nothing is remembered: a later
  device resolution answers from the listing of its own moment, and the outcome of
  \<^verbatim>\<open>flash_binary\<close> depends on the current listing and file system only, not on the
  calls made before.
\<close>

theorem flash_binary_enumerates_once:
  "count_list (new_events w (snd (flash_binary p b t h w))) Call_get_connected_devices = 1
   \<and> connected (snd (flash_binary p b t h w)) = connected w
   \<and> (\<forall>listing t'. fst (find_connected_device t' (snd (flash_binary p b t h w)\<lparr>connected := listing\<rparr>))
          = scan_devices t' (identified_devices listing))
   \<and> (\<forall>w2 :: world. connected w2 = connected w \<and> files w2 = files w \<longrightarrow>
          fst (flash_binary p b t h w2) = fst (flash_binary p b t h w)
          \<and> files (snd (flash_binary p b t h w2)) = files (snd (flash_binary p b t h w)))"
proof (intro conjI allI impI)
  show "count_list (new_events w (snd (flash_binary p b t h w))) Call_get_connected_devices = 1"
    by (simp add: flash_binary_new_events split: sum.splits list.splits)
  show "connected (snd (flash_binary p b t h w)) = connected w"
    by (rule flash_binary_unchanged)
next
  fix listing t'
  show "fst (find_connected_device t' (snd (flash_binary p b t h w)\<lparr>connected := listing\<rparr>))
          = scan_devices t' (identified_devices listing)"
    by (simp add: find_connected_device_eq)
next
  fix w2 :: world assume "connected w2 = connected w \<and> files w2 = files w"
  then have c: "connected w2 = connected w" and f: "files w2 = files w" by simp_all
  show "fst (flash_binary p b t h w2) = fst (flash_binary p b t h w)"
    unfolding flash_binary_result c f by (rule refl)
  show "files (snd (flash_binary p b t h w2)) = files (snd (flash_binary p b t h w))"
    unfolding flash_binary_files c f by (rule refl)
qed

text \<open>
  A successful flash, then the board is unplugged: the next resolution fails.
\<close>

theorem flash_binary_enumerates_once_witness:
  "fst (flash_binary myapp build_dir_example ''k64f'' False
      (initial_world [nucleo_device, k64f_device, k64f_lower_device] fs_flash ''Linux'')) = Inr ()
   \<and> count_list
       (new_events (initial_world [nucleo_device, k64f_device, k64f_lower_device] fs_flash ''Linux'')
         (snd (flash_binary myapp build_dir_example ''k64f'' False
           (initial_world [nucleo_device, k64f_device, k64f_lower_device] fs_flash ''Linux''))))
       Call_get_connected_devices = 1
   \<and> fst (find_connected_device ''k64f''
        (snd (flash_binary myapp build_dir_example ''k64f'' False
           (initial_world [nucleo_device, k64f_device, k64f_lower_device] fs_flash ''Linux''))
         \<lparr>connected := \<lparr>identified_devices = [nucleo_device]\<rparr>\<rparr>)) = Inl DeviceNotFoundError"
  using flash_binary_enumerates_once [of "initial_world [nucleo_device, k64f_device, k64f_lower_device] fs_flash ''Linux''" myapp build_dir_example "''k64f''" False]
    flash_example_linux [of "''Linux''"]
  by (simp add: scan_examples del: scan_devices.simps)


subsection \<open>C10\<close>

text \<open>
  C10, as the code has it. For a resolved device without mount points:
  \<^verbatim>\<open>flash_binary\<close> fails with \<^verbatim>\<open>IndexError\<close> when the artifact is located, fails
  with the error of the artifact location when that fails (it comes first), and
  succeeds in no case.
\<close>

theorem flash_binary_unmounted_device:
  assumes "fst (find_connected_device t w) = Inr d" and "mount_points d = []"
  shows "(\<forall>f. fst (build_binary_file_path p b h (snd (find_connected_device t w))) = Inr f
            \<longrightarrow> fst (flash_binary p b t h w) = Inl IndexError)
       \<and> (\<forall>e. fst (build_binary_file_path p b h (snd (find_connected_device t w))) = Inl e
            \<longrightarrow> fst (flash_binary p b t h w) = Inl e)
       \<and> fst (flash_binary p b t h w) \<noteq> Inr ()"
proof -
  from assms(1) have s: "scan_devices t (identified_devices (connected w)) = Inr d"
    by (simp add: find_connected_device_eq)
  show ?thesis
    using s assms(2)
    by (auto simp: flash_binary_result build_binary_file_path_eq find_connected_device_eq
        emit_simps split: sum.splits if_splits)
qed

text \<open>
  A K64F board without mount points and the artifact in place: \<^verbatim>\<open>IndexError\<close>.
\<close>

theorem flash_binary_unmounted_device_witness:
  "fst (find_connected_device ''k64f'' (initial_world [k64f_unmounted] fs_flash ''Linux''))
     = Inr k64f_unmounted
   \<and> mount_points k64f_unmounted = []
   \<and> fst (build_binary_file_path myapp build_dir_example False
        (snd (find_connected_device ''k64f'' (initial_world [k64f_unmounted] fs_flash ''Linux''))))
     = Inr myapp_bin
   \<and> fst (flash_binary myapp build_dir_example ''k64f'' False
        (initial_world [k64f_unmounted] fs_flash ''Linux'')) = Inl IndexError"
proof -
  let ?w = "initial_world [k64f_unmounted] fs_flash ''Linux''"
  have f: "fst (find_connected_device ''k64f'' ?w) = Inr k64f_unmounted"
    by (simp add: find_connected_device_eq initial_world_simps scan_examples
        del: scan_devices.simps)
  have a: "fst (build_binary_file_path myapp build_dir_example False
        (snd (find_connected_device ''k64f'' ?w))) = Inr myapp_bin"
    by (simp add: build_binary_file_path_eq find_connected_device_eq candidate_myapp emit_simps
        initial_world_simps fs_flash_lookups)
  from flash_binary_unmounted_device [OF f k64f_unmounted_points, of myapp build_dir_example False] a
  have "fst (flash_binary myapp build_dir_example ''k64f'' False ?w) = Inl IndexError" by blast
  with f a k64f_unmounted_points show ?thesis by simp
qed

text \<open>
  C10 as stated fails when the artifact is missing too: the same board, the hex file
  asked for and absent, and the error is \<^verbatim>\<open>BinaryFileNotFoundError\<close>.
\<close>

theorem flash_binary_unmounted_device_counterexample:
  "fst (find_connected_device ''k64f'' (initial_world [k64f_unmounted] fs_flash ''Linux''))
     = Inr k64f_unmounted
   \<and> mount_points k64f_unmounted = []
   \<and> fst (flash_binary myapp build_dir_example ''k64f'' True
        (initial_world [k64f_unmounted] fs_flash ''Linux'')) = Inl BinaryFileNotFoundError
   \<and> fst (flash_binary myapp build_dir_example ''k64f'' True
        (initial_world [k64f_unmounted] fs_flash ''Linux'')) \<noteq> Inl IndexError"
  by (simp add: find_connected_device_eq flash_binary_result initial_world_simps scan_examples
      candidate_myapp fs_flash_lookups k64f_unmounted_points del: scan_devices.simps)

end
